theory Spec2Isabelle
  imports Complex_Main "HOL-Library.Word"
begin

section \<open>Data model of the libcamera application core\<close>

text \<open>
  The development embeds the request and buffer lifecycle of
  \<^verbatim>\<open>src/core/libcamera_app.cpp\<close> (class \<^verbatim>\<open>LibcameraApp\<close>) and of the
  encoder front end \<^verbatim>\<open>LibcameraEncoder\<close>.  Objects that the C++ code refers to
  by pointer are identified by natural numbers; a pointer that may be null is
  an \<open>option\<close>, with \<open>None\<close> for \<^verbatim>\<open>nullptr\<close>.  Every member function takes the
  application state and returns the new one; a \<^verbatim>\<open>throw\<close>, a failed
  \<^verbatim>\<open>assert\<close> and an undefined read are the \<open>Inl\<close> branch of the result.
  The critical sections of the source (each guarded by a mutex) are the
  atomic steps of the model.
\<close>

type_synonym stream = nat
type_synonym framebuffer = nat
type_synonym cr_ptr = nat
type_synonym control = "nat \<times> int"
type_synonym buffer_map = "(stream \<times> framebuffer) list"

datatype error =
    RuntimeError string
  | AssertionFailed string
  | UndefinedBehaviour string

datatype request_status = RequestPending | RequestComplete | RequestCancelled

text \<open>
  A libcamera \<^verbatim>\<open>Request\<close>.  Its \<^verbatim>\<open>BufferMap\<close> is a
  \<^verbatim>\<open>std::map\<close> from stream to buffer; the list holds its entries in
  iteration order, that is by increasing key.
\<close>

record request =
  req_status :: request_status
  req_buffers :: buffer_map
  req_controls :: "control list"
  req_metadata :: "control list"

text \<open>
  A \<^verbatim>\<open>CompletedRequest\<close> together with the address it was allocated at
  (\<open>cr_ptr\<close>), which is the identity the known-completed set records.  The
  frame rate is a \<^verbatim>\<open>float\<close> in the source; the model keeps the exact real
  value that the floating-point division approximates.
\<close>

record completed_request =
  cr_ptr :: cr_ptr
  cr_sequence :: nat
  cr_buffers :: buffer_map
  cr_metadata :: "control list"
  cr_framerate :: real

text \<open>The \<^verbatim>\<open>PreviewItem\<close>: a shared reference and a stream pointer, both nullable.\<close>

record preview_item =
  pi_completed_request :: "completed_request option"
  pi_stream :: "stream option"

text \<open>A mapped span: the address \<^verbatim>\<open>mmap\<close> returned and the length mapped.\<close>

type_synonym span = "64 word \<times> nat"

record stream_configuration =
  cfg_width :: "32 word"
  cfg_height :: "32 word"
  cfg_stride :: "32 word"

datatype msg = MsgRequestComplete completed_request | MsgQuit | MsgTimeout

text \<open>
  The members of \<^verbatim>\<open>LibcameraApp\<close> that the modelled functions read or write.
  \<open>device_queue\<close> is the sequence of requests handed to
  \<^verbatim>\<open>camera_->queueRequest\<close> so far and \<open>cerr\<close> the lines written to the
  error stream: both make the effects of the code on its environment
  observable.  \<open>frame_buffers\<close> and \<open>mapped_buffers\<close> are \<^verbatim>\<open>std::map\<close>s read
  with \<^verbatim>\<open>operator[]\<close>, which yields an empty container for an absent key.
  \<open>stream_config\<close> is the \<^verbatim>\<open>StreamConfiguration\<close> that each \<^verbatim>\<open>Stream\<close> object
  carries.
\<close>

text \<open>
  Modelled from the spec: the header \<^verbatim>\<open>core/libcamera_app.hpp\<close>, which declares
  the types of \<^verbatim>\<open>sequence_\<close> and \<^verbatim>\<open>preview_frames_dropped_\<close> and the
  \<^verbatim>\<open>CompletedRequest\<close> structure, is not among the sources.  The spec speaks
  of a monotonic sequence number and of a dropped-frame counter that
  increments, so both counters are unbounded naturals.  \<^verbatim>\<open>last_timestamp_\<close>
  has the type of the \<^verbatim>\<open>uint64_t timestamp\<close> it is compared with and assigned
  from.
\<close>

record app =
  opt_verbose :: bool
  opt_help :: bool
  camera_started :: bool
  known_completed_requests :: "cr_ptr set"
  free_requests :: "request list"
  requests :: "request list"
  controls :: "control list"
  msg_queue :: "msg list"
  preview_item :: preview_item
  preview_frames_dropped :: nat
  sequence :: nat
  last_timestamp :: "64 word"
  configuration :: "stream list"
  stream_config :: "stream \<Rightarrow> stream_configuration"
  frame_buffers :: "stream \<Rightarrow> framebuffer list"
  mapped_buffers :: "framebuffer \<Rightarrow> span list"
  streams :: "string \<rightharpoonup> stream"
  device_queue :: "request list"
  cerr :: "string list"

text \<open>
  The camera device and its allocator are external to the repository.  What
  their calls return is an input of the model: the return code of
  \<^verbatim>\<open>Camera::stop\<close>, whether the \<open>n\<close>-th \<^verbatim>\<open>createRequest\<close> yields a request,
  the return codes of \<^verbatim>\<open>Request::addBuffer\<close> and \<^verbatim>\<open>Camera::queueRequest\<close>,
  the verdict of \<^verbatim>\<open>CameraConfiguration::validate\<close>, the return codes of
  \<^verbatim>\<open>Camera::configure\<close> and \<^verbatim>\<open>FrameBufferAllocator::allocate\<close>, the
  buffers the allocator hands out for a stream and the planes of each buffer.
\<close>

datatype validation = Valid | Adjusted | Invalid

record plane =
  plane_fd :: int
  plane_length :: nat

record camera =
  cam_stop :: int
  cam_createRequest :: "nat \<Rightarrow> bool"
  cam_addBuffer :: "request \<Rightarrow> stream \<Rightarrow> framebuffer \<Rightarrow> int"
  cam_queueRequest :: "request \<Rightarrow> int"
  cam_validate :: validation
  cam_configure :: int
  cam_allocate :: "stream \<Rightarrow> int"
  cam_buffers :: "stream \<Rightarrow> framebuffer list"
  cam_planes :: "framebuffer \<Rightarrow> plane list"

section \<open>Stopping the camera and recycling completed requests\<close>

text \<open>
  \<^verbatim>\<open>Request::addBuffer\<close>: a negative return code is a failure; otherwise
  the binding is entered into the request's buffer map.
\<close>

definition Request_addBuffer ::
  "camera \<Rightarrow> request \<Rightarrow> stream \<Rightarrow> framebuffer \<Rightarrow> request option" where
  "Request_addBuffer cam r st b =
     (if cam_addBuffer cam r st b < 0 then None
      else Some (r\<lparr>req_buffers := insort_key fst (st, b) (req_buffers r)\<rparr>))"

text \<open>The loop of \<^verbatim>\<open>queueRequest\<close> that rebinds the buffers of a completed request.\<close>

fun addBuffers :: "camera \<Rightarrow> request \<Rightarrow> buffer_map \<Rightarrow> request option" where
  "addBuffers cam r [] = Some r"
| "addBuffers cam r ((st, b) # ps) =
     (case Request_addBuffer cam r st b of
        None \<Rightarrow> None
      | Some r' \<Rightarrow> addBuffers cam r' ps)"


text \<open>
  \<^verbatim>\<open>LibcameraApp::queueRequest\<close>, the release action (Recycle) of every shared
  \<^verbatim>\<open>CompletedRequest\<close>.  The buffers are moved out and the object deleted
  before the stop lock is taken; the rest runs under the lock.
\<close>

definition queueRequest :: "camera \<Rightarrow> completed_request \<Rightarrow> app \<Rightarrow> error + app" where
  "queueRequest cam completed_request s =
     (let buffers = cr_buffers completed_request in
      if \<not> camera_started s then Inr s
      else if cr_ptr completed_request \<notin> known_completed_requests s then Inr s
      else
        let s1 = s\<lparr>known_completed_requests :=
                     known_completed_requests s - {cr_ptr completed_request}\<rparr>
        in case free_requests s1 of
             [] \<Rightarrow> Inr (s1\<lparr>cerr := cerr s1 @ [''WARNING: could not make request!'']\<rparr>)
           | request # rest \<Rightarrow>
               let s2 = s1\<lparr>free_requests := rest\<rparr> in
               (case addBuffers cam request buffers of
                  None \<Rightarrow> Inl (RuntimeError ''failed to add buffer to request in QueueRequest'')
                | Some request1 \<Rightarrow>
                    let request2 = request1\<lparr>req_controls := controls s2\<rparr>;
                        s3 = s2\<lparr>controls := []\<rparr>
                    in if cam_queueRequest cam request2 < 0
                       then Inl (RuntimeError ''failed to queue request'')
                       else Inr (s3\<lparr>device_queue := device_queue s3 @ [request2]\<rparr>)))"

section \<open>Building the requests\<close>









section \<open>The completion callback\<close>

text \<open>
  \<^verbatim>\<open>Request::reuse\<close> of libcamera puts a request back into its initial state:
  pending, with no buffers, controls or metadata.
\<close>

definition Request_reuse :: "request \<Rightarrow> request" where
  "Request_reuse r = r\<lparr>req_status := RequestPending, req_buffers := [],
                        req_controls := [], req_metadata := []\<rparr>"

text \<open>
  The frame rate assigned at the end of \<^verbatim>\<open>requestComplete\<close>.  The difference
  \<^verbatim>\<open>timestamp - last_timestamp_\<close> is a \<^verbatim>\<open>uint64_t\<close> subtraction, which wraps
  around; the quotient is the exact real one.
\<close>

definition framerate_of :: "64 word \<Rightarrow> 64 word \<Rightarrow> real" where
  "framerate_of last_ts timestamp =
     (if last_ts = 0 \<or> last_ts = timestamp then 0
      else 1000000000 / real (unat (timestamp - last_ts)))"

text \<open>
  \<^verbatim>\<open>LibcameraApp::requestComplete\<close>.  \<open>ts\<close> gives the timestamp the device
  wrote into each buffer's metadata and \<open>r\<close> is the address of the
  \<^verbatim>\<open>CompletedRequest\<close> that \<^verbatim>\<open>new\<close> returns.  The result carries the payload
  handed to the post-processor, if any.  Reading \<^verbatim>\<open>buffers.begin()\<close> of a
  request without buffers is undefined.
\<close>

definition requestComplete ::
  "(framebuffer \<Rightarrow> 64 word) \<Rightarrow> cr_ptr \<Rightarrow> request \<Rightarrow> app \<Rightarrow>
   error + (completed_request option \<times> app)" where
  "requestComplete ts r request s =
     (if req_status request = RequestCancelled then Inr (None, s)
      else
        let payload = \<lparr>cr_ptr = r, cr_sequence = sequence s,
                       cr_buffers = req_buffers request,
                       cr_metadata = req_metadata request, cr_framerate = 0\<rparr>;
            s1 = s\<lparr>sequence := sequence s + 1\<rparr>;
            s2 = s1\<lparr>known_completed_requests := insert r (known_completed_requests s1)\<rparr>;
            s3 = s2\<lparr>free_requests := free_requests s2 @ [Request_reuse request]\<rparr>
        in case cr_buffers payload of
             [] \<Rightarrow> Inl (UndefinedBehaviour ''buffers.begin() of an empty map'')
           | (st, b) # _ \<Rightarrow>
               let timestamp = ts b;
                   payload1 = payload\<lparr>cr_framerate :=
                                         framerate_of (last_timestamp s3) timestamp\<rparr>
               in Inr (Some payload1, s3\<lparr>last_timestamp := timestamp\<rparr>))"

text \<open>
  The callback fired for a sequence of requests, each with the timestamps the
  device has written by then and the address of the \<^verbatim>\<open>CompletedRequest\<close>
  allocated for it; the payloads are collected in arrival order.
\<close>

type_synonym completion = "(framebuffer \<Rightarrow> 64 word) \<times> cr_ptr \<times> request"

definition completion_request :: "completion \<Rightarrow> request" where
  "completion_request ev = snd (snd ev)"

definition completion_ptr :: "completion \<Rightarrow> cr_ptr" where
  "completion_ptr ev = fst (snd ev)"

fun requestComplete_all ::
  "completion list \<Rightarrow> app \<Rightarrow> error + (completed_request list \<times> app)" where
  "requestComplete_all [] s = Inr ([], s)"
| "requestComplete_all ((ts, r, request) # rest) s =
     (case requestComplete ts r request s of
        Inl e \<Rightarrow> Inl e
      | Inr (p, s1) \<Rightarrow>
          (case requestComplete_all rest s1 of
             Inl e \<Rightarrow> Inl e
           | Inr (ps, s2) \<Rightarrow> Inr ((case p of None \<Rightarrow> [] | Some c \<Rightarrow> [c]) @ ps, s2)))"

section \<open>The preview slot\<close>

text \<open>
  \<^verbatim>\<open>LibcameraApp::ShowPreview\<close>.  The slot counts as free when its stream
  pointer is null.  Notifying the condition variable changes no member.
\<close>

definition ShowPreview :: "completed_request \<Rightarrow> stream option \<Rightarrow> app \<Rightarrow> app" where
  "ShowPreview completed_request stream s =
     (if pi_stream (preview_item s) = None
      then s\<lparr>preview_item := \<lparr>pi_completed_request = Some completed_request,
                                pi_stream = stream\<rparr>\<rparr>
      else s\<lparr>preview_frames_dropped := preview_frames_dropped s + 1\<rparr>)"


section \<open>Looking up streams\<close>

text \<open>
  The output parameters of \<^verbatim>\<open>GetStream\<close> are pointers to \<^verbatim>\<open>unsigned int\<close>
  variables of the caller.  The caller's memory is a store from addresses to
  values and each parameter is a nullable address.
\<close>

type_synonym memory = "nat \<Rightarrow> 32 word"

definition StreamDimensions ::
  "app \<Rightarrow> stream \<Rightarrow> nat option \<Rightarrow> nat option \<Rightarrow> nat option \<Rightarrow> memory \<Rightarrow> memory" where
  "StreamDimensions s stream w h stride mem =
     (let cfg = stream_config s stream;
          mem1 = (case w of None \<Rightarrow> mem | Some a \<Rightarrow> mem(a := cfg_width cfg));
          mem2 = (case h of None \<Rightarrow> mem1 | Some a \<Rightarrow> mem1(a := cfg_height cfg))
      in (case stride of None \<Rightarrow> mem2 | Some a \<Rightarrow> mem2(a := cfg_stride cfg)))"

definition GetStream ::
  "app \<Rightarrow> string \<Rightarrow> nat option \<Rightarrow> nat option \<Rightarrow> nat option \<Rightarrow> memory \<Rightarrow>
   stream option \<times> memory" where
  "GetStream s name w h stride mem =
     (case streams s name of
        None \<Rightarrow> (None, mem)
      | Some st \<Rightarrow> (Some st, StreamDimensions s st w h stride mem))"

definition ViewfinderStream ::
  "app \<Rightarrow> nat option \<Rightarrow> nat option \<Rightarrow> nat option \<Rightarrow> memory \<Rightarrow> stream option \<times> memory" where
  "ViewfinderStream s w h stride mem = GetStream s ''viewfinder'' w h stride mem"

definition StillStream ::
  "app \<Rightarrow> nat option \<Rightarrow> nat option \<Rightarrow> nat option \<Rightarrow> memory \<Rightarrow> stream option \<times> memory" where
  "StillStream s w h stride mem = GetStream s ''still'' w h stride mem"

definition RawStream ::
  "app \<Rightarrow> nat option \<Rightarrow> nat option \<Rightarrow> nat option \<Rightarrow> memory \<Rightarrow> stream option \<times> memory" where
  "RawStream s w h stride mem = GetStream s ''raw'' w h stride mem"

definition VideoStream ::
  "app \<Rightarrow> nat option \<Rightarrow> nat option \<Rightarrow> nat option \<Rightarrow> memory \<Rightarrow> stream option \<times> memory" where
  "VideoStream s w h stride mem = GetStream s ''video'' w h stride mem"

definition LoresStream ::
  "app \<Rightarrow> nat option \<Rightarrow> nat option \<Rightarrow> nat option \<Rightarrow> memory \<Rightarrow> stream option \<times> memory" where
  "LoresStream s w h stride mem = GetStream s ''lores'' w h stride mem"

section \<open>Allocating and mapping the buffers\<close>

text \<open>
  \<^verbatim>\<open>mmap\<close> is a call into the operating system: \<open>mm len fd\<close> is the address
  it returns for a mapping of \<open>len\<close> bytes of descriptor \<open>fd\<close>, and
  \<^verbatim>\<open>MAP_FAILED\<close>, the pointer \<^verbatim>\<open>(void *) -1\<close>, is what it returns on failure.
\<close>

definition MAP_FAILED :: "64 word" where
  "MAP_FAILED = - 1"

text \<open>
  The loop over the planes of one buffer.  Lengths are accumulated while
  adjacent planes share a descriptor; the last plane of each run is mapped,
  with the accumulated length, and the span is appended to the buffer's entry.
  Lengths are naturals: nothing proved here depends on the width of
  \<^verbatim>\<open>size_t\<close>.
\<close>

fun map_planes :: "(nat \<Rightarrow> int \<Rightarrow> 64 word) \<Rightarrow> nat \<Rightarrow> plane list \<Rightarrow> span list" where
  "map_planes mm buffer_size [] = []"
| "map_planes mm buffer_size [p] =
     [(mm (buffer_size + plane_length p) (plane_fd p), buffer_size + plane_length p)]"
| "map_planes mm buffer_size (p # q # ps) =
     (if plane_fd p \<noteq> plane_fd q
      then (mm (buffer_size + plane_length p) (plane_fd p), buffer_size + plane_length p)
             # map_planes mm 0 (q # ps)
      else map_planes mm (buffer_size + plane_length p) (q # ps))"

text \<open>The loop over the buffers allocated for one stream.\<close>

fun setup_buffers ::
  "camera \<Rightarrow> (nat \<Rightarrow> int \<Rightarrow> 64 word) \<Rightarrow> stream \<Rightarrow> framebuffer list \<Rightarrow> app \<Rightarrow> app" where
  "setup_buffers cam mm stream [] s = s"
| "setup_buffers cam mm stream (buffer # rest) s =
     setup_buffers cam mm stream rest
       (s\<lparr>mapped_buffers := (mapped_buffers s)
              (buffer := mapped_buffers s buffer @ map_planes mm 0 (cam_planes cam buffer)),
           frame_buffers := (frame_buffers s)
              (stream := frame_buffers s stream @ [buffer])\<rparr>)"

text \<open>The loop over the stream configurations.\<close>

fun setup_streams ::
  "camera \<Rightarrow> (nat \<Rightarrow> int \<Rightarrow> 64 word) \<Rightarrow> stream list \<Rightarrow> app \<Rightarrow> error + app" where
  "setup_streams cam mm [] s = Inr s"
| "setup_streams cam mm (stream # rest) s =
     (if cam_allocate cam stream < 0
      then Inl (RuntimeError ''failed to allocate capture buffers'')
      else setup_streams cam mm rest
             (setup_buffers cam mm stream (cam_buffers cam stream) s))"

text \<open>\<^verbatim>\<open>LibcameraApp::setupCapture\<close>.\<close>

definition setupCapture :: "camera \<Rightarrow> (nat \<Rightarrow> int \<Rightarrow> 64 word) \<Rightarrow> app \<Rightarrow> error + app" where
  "setupCapture cam mm s =
     (if cam_validate cam = Invalid
      then Inl (RuntimeError ''failed to valid stream configurations'')
      else
        let s1 = (if cam_validate cam = Adjusted
                  then s\<lparr>cerr := cerr s @ [''Stream configuration adjusted'']\<rparr> else s)
        in if cam_configure cam < 0
           then Inl (RuntimeError ''failed to configure streams'')
           else
             let s2 = (if opt_verbose s1
                       then s1\<lparr>cerr := cerr s1 @ [''Camera streams configured'']\<rparr> else s1)
             in (case setup_streams cam mm (configuration s2) s2 of
                   Inl e \<Rightarrow> Inl e
                 | Inr s3 \<Rightarrow>
                     Inr (if opt_verbose s3
                          then s3\<lparr>cerr := cerr s3 @ [''Buffers allocated and mapped'']\<rparr>
                          else s3)))"


section \<open>The encoder front end\<close>




section \<open>Concrete inputs\<close>

definition cam_ok :: camera where
  "cam_ok = \<lparr>cam_stop = 0, cam_createRequest = (\<lambda>n. True),
             cam_addBuffer = (\<lambda>r st b. 0), cam_queueRequest = (\<lambda>r. 0),
             cam_validate = Valid, cam_configure = 0, cam_allocate = (\<lambda>st. 0),
             cam_buffers = (\<lambda>st. []), cam_planes = (\<lambda>b. [])\<rparr>"

definition app0 :: app where
  "app0 = \<lparr>opt_verbose = False, opt_help = False, camera_started = False,
           known_completed_requests = {}, free_requests = [], requests = [],
           controls = [], msg_queue = [],
           preview_item = \<lparr>pi_completed_request = None, pi_stream = None\<rparr>,
           preview_frames_dropped = 0, sequence = 0, last_timestamp = 0,
           configuration = [],
           stream_config = (\<lambda>st. \<lparr>cfg_width = 0, cfg_height = 0, cfg_stride = 0\<rparr>),
           frame_buffers = (\<lambda>st. []), mapped_buffers = (\<lambda>b. []),
           streams = Map.empty, device_queue = [], cerr = []\<rparr>"

definition cr7 :: completed_request where
  "cr7 = \<lparr>cr_ptr = 7, cr_sequence = 0, cr_buffers = [(1, 11)],
          cr_metadata = [], cr_framerate = 0\<rparr>"





text \<open>A running camera with a completed request outstanding and no free container.\<close>

definition app_starved :: app where
  "app_starved = app0\<lparr>camera_started := True, known_completed_requests := {7}\<rparr>"

text \<open>Requests as the device reports them: one completed, one cancelled.\<close>

definition req1 :: request where
  "req1 = \<lparr>req_status = RequestComplete, req_buffers = [(1, 11)],
           req_controls = [], req_metadata = []\<rparr>"

definition req_cancelled :: request where
  "req_cancelled = \<lparr>req_status = RequestCancelled, req_buffers = [(1, 12)],
                    req_controls = [], req_metadata = []\<rparr>"






text \<open>
  A configured stream for which the allocator hands out one buffer of one
  plane, and an operating system that refuses every mapping.
\<close>

definition cam_one_buffer :: camera where
  "cam_one_buffer =
     cam_ok\<lparr>cam_buffers := (\<lambda>st. if st = 1 then [11] else []),
            cam_planes := (\<lambda>b. [\<lparr>plane_fd = 5, plane_length = 4096\<rparr>])\<rparr>"

definition app_configured :: app where
  "app_configured = app0\<lparr>configuration := [1]\<rparr>"

definition mmap_fails :: "nat \<Rightarrow> int \<Rightarrow> 64 word" where
  "mmap_fails len fd = MAP_FAILED"



text \<open>A viewfinder stream of 640 by 480 with a stride of 640, and a caller's memory.\<close>

definition app_viewfinder :: app where
  "app_viewfinder =
     app0\<lparr>streams := [''viewfinder'' \<mapsto> 1],
          stream_config := (\<lambda>st. \<lparr>cfg_width = 640, cfg_height = 480, cfg_stride = 640\<rparr>)\<rparr>"

definition mem0 :: memory where
  "mem0 = (\<lambda>a. 7)"

section \<open>Orphaned completed requests after a stop\<close>





section \<open>Recycling a completed request\<close>






text \<open>
  Claim C6.  On a started camera, a recycle for an identity in the
  known-completed set that finds the free-request list empty returns
  normally; the state it leaves differs from the one it found only in that the
  identity is gone from the set and a warning has been written.  In
  particular nothing has been added to the requests submitted to the device.
\<close>

theorem queueRequest_no_free_request:
  assumes "camera_started s" and "cr_ptr cr \<in> known_completed_requests s"
    and "free_requests s = []"
  shows "queueRequest cam cr s =
           Inr (s\<lparr>known_completed_requests := known_completed_requests s - {cr_ptr cr},
                   cerr := cerr s @ [''WARNING: could not make request!'']\<rparr>)"
  using assms by (simp add: queueRequest_def)

theorem queueRequest_no_free_request_witness:
  "queueRequest cam_ok cr7 app_starved =
     Inr (app0\<lparr>camera_started := True,
               cerr := [''WARNING: could not make request!'']\<rparr>)"
proof -
  have "camera_started app_starved"
    and "cr_ptr cr7 \<in> known_completed_requests app_starved"
    and "free_requests app_starved = []"
    by (simp_all add: app_starved_def app0_def cr7_def)
  from queueRequest_no_free_request [OF this, of cam_ok] show ?thesis
    by (simp add: app_starved_def app0_def cr7_def)
qed

section \<open>The preview slot drops what it cannot hold\<close>




section \<open>The encoder's queue of buffers in flight\<close>



section \<open>Stream lookup and its output parameters\<close>

lemma StreamDimensions_read:
  "StreamDimensions s st w h stride mem a =
     (if stride = Some a then cfg_stride (stream_config s st)
      else if h = Some a then cfg_height (stream_config s st)
      else if w = Some a then cfg_width (stream_config s st)
      else mem a)"
  by (auto simp: StreamDimensions_def Let_def split: option.splits)

text \<open>
  Claim C10.  For a name that is not in the table of streams, \<^verbatim>\<open>GetStream\<close>
  returns the null pointer and the caller's memory is what it was.  For a
  name in the table it returns that stream, and afterwards every address
  passed for the stride holds the stream's stride, every other address passed
  for the height holds its height, every other address passed for the width
  holds its width, and all remaining memory is unchanged (when two parameters
  point to the same variable the later assignment of the source wins).  The
  five named accessors are \<^verbatim>\<open>GetStream\<close> at their names.
\<close>

theorem GetStream_outputs:
  "(streams s name = None \<longrightarrow> GetStream s name w h stride mem = (None, mem)) \<and>
   (\<forall>st. streams s name = Some st \<longrightarrow>
      fst (GetStream s name w h stride mem) = Some st \<and>
      (\<forall>a. snd (GetStream s name w h stride mem) a =
         (if stride = Some a then cfg_stride (stream_config s st)
          else if h = Some a then cfg_height (stream_config s st)
          else if w = Some a then cfg_width (stream_config s st)
          else mem a))) \<and>
   ViewfinderStream s w h stride mem = GetStream s ''viewfinder'' w h stride mem \<and>
   StillStream s w h stride mem = GetStream s ''still'' w h stride mem \<and>
   RawStream s w h stride mem = GetStream s ''raw'' w h stride mem \<and>
   VideoStream s w h stride mem = GetStream s ''video'' w h stride mem \<and>
   LoresStream s w h stride mem = GetStream s ''lores'' w h stride mem"
  by (simp add: GetStream_def StreamDimensions_read ViewfinderStream_def StillStream_def
        RawStream_def VideoStream_def LoresStream_def)

theorem GetStream_outputs_witness:
  "VideoStream app_viewfinder (Some 0) (Some 1) (Some 2) mem0 = (None, mem0) \<and>
   fst (ViewfinderStream app_viewfinder (Some 0) (Some 1) None mem0) = Some 1 \<and>
   snd (ViewfinderStream app_viewfinder (Some 0) (Some 1) None mem0) 0 = 640 \<and>
   snd (ViewfinderStream app_viewfinder (Some 0) (Some 1) None mem0) 1 = 480 \<and>
   snd (ViewfinderStream app_viewfinder (Some 0) (Some 1) None mem0) 2 = 7"
proof -
  have absent: "streams app_viewfinder ''video'' = None"
    and present: "streams app_viewfinder ''viewfinder'' = Some 1"
    by (simp_all add: app_viewfinder_def)
  from GetStream_outputs [of app_viewfinder "''video''" "Some 0" "Some 1" "Some 2" mem0] absent
  have video: "VideoStream app_viewfinder (Some 0) (Some 1) (Some 2) mem0 = (None, mem0)"
    by simp
  from GetStream_outputs [of app_viewfinder "''viewfinder''" "Some 0" "Some 1" None mem0] present
  have "fst (ViewfinderStream app_viewfinder (Some 0) (Some 1) None mem0) = Some 1"
    and "snd (ViewfinderStream app_viewfinder (Some 0) (Some 1) None mem0) 0 = 640"
    and "snd (ViewfinderStream app_viewfinder (Some 0) (Some 1) None mem0) 1 = 480"
    and "snd (ViewfinderStream app_viewfinder (Some 0) (Some 1) None mem0) 2 = 7"
    by (simp_all add: app_viewfinder_def mem0_def)
  with video show ?thesis by simp
qed

section \<open>Frame rate and sequence numbers of completed requests\<close>





lemma requestComplete_sequence:
  assumes "requestComplete ts r request s = Inr (p, s1)"
  shows "(case p of
            None \<Rightarrow> sequence s1 = sequence s \<and> req_status request = RequestCancelled
          | Some c \<Rightarrow> cr_sequence c = sequence s \<and> sequence s1 = sequence s + 1 \<and>
                      cr_ptr c = r \<and> req_status request \<noteq> RequestCancelled)"
  using assms
  by (auto simp: requestComplete_def Let_def split: if_splits list.splits)

lemma requestComplete_all_sequence:
  assumes "requestComplete_all evs s = Inr (ps, s1)"
  shows "map cr_sequence ps = [sequence s ..< sequence s + length ps] \<and>
         sequence s1 = sequence s + length ps \<and>
         map cr_ptr ps =
           map completion_ptr
             (filter (\<lambda>ev. req_status (completion_request ev) \<noteq> RequestCancelled) evs)"
  using assms
proof (induction evs arbitrary: s ps)
  case Nil
  then show ?case by simp
next
  case (Cons ev evs)
  obtain ts r request where ev: "ev = (ts, r, request)" by (cases ev)
  from Cons.prems obtain p s2 ps2 where
    one: "requestComplete ts r request s = Inr (p, s2)" and
    rest: "requestComplete_all evs s2 = Inr (ps2, s1)" and
    ps: "ps = (case p of None \<Rightarrow> [] | Some c \<Rightarrow> [c]) @ ps2"
    by (auto simp: ev split: sum.splits prod.splits)
  note ih = Cons.IH [OF rest]
  show ?case
  proof (cases p)
    case None
    with requestComplete_sequence [OF one] ih ps show ?thesis
      by (simp add: ev completion_request_def completion_ptr_def)
  next
    case (Some c)
    have "[sequence s ..< sequence s + Suc (length ps2)] =
            sequence s # [Suc (sequence s) ..< Suc (sequence s) + length ps2]"
      by (simp add: upt_conv_Cons del: upt_Suc)
    with Some requestComplete_sequence [OF one] ih ps show ?thesis
      by (simp add: ev completion_request_def completion_ptr_def del: upt_Suc)
  qed
qed

lemma requestComplete_all_returns:
  assumes "\<forall>ev \<in> set evs. req_status (completion_request ev) \<noteq> RequestCancelled \<longrightarrow>
             req_buffers (completion_request ev) \<noteq> []"
  shows "\<exists>ps s1. requestComplete_all evs s = Inr (ps, s1)"
  using assms
proof (induction evs arbitrary: s)
  case Nil
  then show ?case by simp
next
  case (Cons ev evs)
  obtain ts r request where ev: "ev = (ts, r, request)" by (cases ev)
  from Cons.prems have "\<exists>p s2. requestComplete ts r request s = Inr (p, s2)"
    by (auto simp: ev completion_request_def requestComplete_def Let_def split: list.splits)
  then obtain p s2 where one: "requestComplete ts r request s = Inr (p, s2)" by blast
  from Cons.prems have "\<forall>ev \<in> set evs.
      req_status (completion_request ev) \<noteq> RequestCancelled \<longrightarrow>
      req_buffers (completion_request ev) \<noteq> []"
    by simp
  from Cons.IH [OF this, of s2] obtain ps s1 where
    "requestComplete_all evs s2 = Inr (ps, s1)" by blast
  with one show ?case by (simp add: ev)
qed

lemma queueRequest_sequence:
  "queueRequest cam cr s = Inr s1 \<Longrightarrow> sequence s1 = sequence s"
  by (auto simp: queueRequest_def Let_def split: if_splits list.splits option.splits)

text \<open>
  Claim C8.  The callback returns at once for a cancelled request: no
  completed request is produced, the state (and with it the sequence counter)
  is what it was, and the result is not an error.  For any sequence of
  callbacks, the completed requests produced are those of the requests that
  were not cancelled, in arrival order, and their sequence numbers are the
  consecutive numbers that start at the counter's value: strictly increasing,
  without a gap; the counter ends advanced by their count.  The callbacks all
  return when every request that is not cancelled carries a buffer.  A
  recycle or a preview hand-off that runs between two callbacks leaves the
  counter alone.
\<close>

theorem requestComplete_sequence_numbers:
  "(req_status request = RequestCancelled \<longrightarrow>
      requestComplete ts r request s = Inr (None, s)) \<and>
   (\<forall>ps s1. requestComplete_all evs s = Inr (ps, s1) \<longrightarrow>
      map cr_sequence ps = [sequence s ..< sequence s + length ps] \<and>
      sorted_wrt (<) (map cr_sequence ps) \<and>
      sequence s1 = sequence s + length ps \<and>
      map cr_ptr ps =
        map completion_ptr
          (filter (\<lambda>ev. req_status (completion_request ev) \<noteq> RequestCancelled) evs)) \<and>
   ((\<forall>ev \<in> set evs. req_status (completion_request ev) \<noteq> RequestCancelled \<longrightarrow>
                     req_buffers (completion_request ev) \<noteq> []) \<longrightarrow>
      (\<exists>ps s1. requestComplete_all evs s = Inr (ps, s1))) \<and>
   (\<forall>s1. queueRequest cam cr s = Inr s1 \<longrightarrow> sequence s1 = sequence s) \<and>
   sequence (ShowPreview cr stream s) = sequence s"
proof (intro conjI allI impI)
  assume "req_status request = RequestCancelled"
  then show "requestComplete ts r request s = Inr (None, s)"
    by (simp add: requestComplete_def)
next
  fix ps s1 assume run: "requestComplete_all evs s = Inr (ps, s1)"
  note seq = requestComplete_all_sequence [OF run]
  from seq show "map cr_sequence ps = [sequence s ..< sequence s + length ps]" by simp
  then show "sorted_wrt (<) (map cr_sequence ps)" by (simp del: upt_Suc)
  from seq show "sequence s1 = sequence s + length ps" by simp
  from seq show "map cr_ptr ps =
      map completion_ptr
        (filter (\<lambda>ev. req_status (completion_request ev) \<noteq> RequestCancelled) evs)"
    by simp
next
  assume "\<forall>ev \<in> set evs. req_status (completion_request ev) \<noteq> RequestCancelled \<longrightarrow>
            req_buffers (completion_request ev) \<noteq> []"
  then show "\<exists>ps s1. requestComplete_all evs s = Inr (ps, s1)"
    by (rule requestComplete_all_returns)
next
  fix s1 assume "queueRequest cam cr s = Inr s1"
  then show "sequence s1 = sequence s" by (rule queueRequest_sequence)
next
  show "sequence (ShowPreview cr stream s) = sequence s"
    by (simp add: ShowPreview_def)
qed

theorem requestComplete_sequence_numbers_witness:
  "requestComplete (\<lambda>b. 0) 8 req_cancelled app0 = Inr (None, app0) \<and>
   (\<exists>ps s1. requestComplete_all
               [(\<lambda>b. 1000, 7, req1), (\<lambda>b. 2000, 8, req_cancelled), (\<lambda>b. 3000, 9, req1)] app0 =
               Inr (ps, s1) \<and>
             map cr_sequence ps = [0, 1] \<and> map cr_ptr ps = [7, 9] \<and> sequence s1 = 2)"
proof -
  let ?evs = "[(\<lambda>b. 1000, 7, req1), (\<lambda>b. 2000, 8, req_cancelled), (\<lambda>b. 3000, 9, req1)]
                :: completion list"
  note inst = requestComplete_sequence_numbers
                [of req_cancelled "\<lambda>b. 0" 8 app0 ?evs cam_ok cr7 None]
  have cancelled: "req_status req_cancelled = RequestCancelled"
    by (simp add: req_cancelled_def)
  with inst have first: "requestComplete (\<lambda>b. 0) 8 req_cancelled app0 = Inr (None, app0)"
    by blast
  have "\<forall>ev \<in> set ?evs. req_status (completion_request ev) \<noteq> RequestCancelled \<longrightarrow>
          req_buffers (completion_request ev) \<noteq> []"
    by (simp add: req1_def req_cancelled_def completion_request_def)
  with inst obtain ps s1 where
    run: "requestComplete_all ?evs app0 = Inr (ps, s1)" by blast
  with inst have seq: "map cr_sequence ps = [sequence app0 ..< sequence app0 + length ps]"
    and cnt: "sequence s1 = sequence app0 + length ps"
    and ptr: "map cr_ptr ps =
                map completion_ptr
                  (filter (\<lambda>ev. req_status (completion_request ev) \<noteq> RequestCancelled) ?evs)"
    by blast+
  from ptr have ptrs: "map cr_ptr ps = [7, 9]"
    by (simp add: req1_def req_cancelled_def completion_request_def completion_ptr_def)
  then have "length (map cr_ptr ps) = 2" by simp
  then have len: "length ps = 2" by simp
  have "[0 ..< 2] = [0, Suc 0]" by (simp add: upt_rec numeral_2_eq_2)
  with seq cnt len have "map cr_sequence ps = [0, 1]" and "sequence s1 = 2"
    by (simp_all add: app0_def)
  with run ptrs have "requestComplete_all ?evs app0 = Inr (ps, s1) \<and>
      map cr_sequence ps = [0, 1] \<and> map cr_ptr ps = [7, 9] \<and> sequence s1 = 2"
    by simp
  then have "\<exists>ps s1. requestComplete_all ?evs app0 = Inr (ps, s1) \<and>
      map cr_sequence ps = [0, 1] \<and> map cr_ptr ps = [7, 9] \<and> sequence s1 = 2"
    by (intro exI)
  with first show ?thesis by (rule conjI)
qed

section \<open>Mapping failures during buffer setup\<close>

lemma setup_streams_fails_iff:
  "isl (setup_streams cam mm cfg s) \<longleftrightarrow> (\<exists>st \<in> set cfg. cam_allocate cam st < 0)"
  by (induction cfg arbitrary: s) auto

lemma setupCapture_fails_iff:
  "isl (setupCapture cam mm s) \<longleftrightarrow>
     cam_validate cam = Invalid \<or> cam_configure cam < 0 \<or>
     (\<exists>st \<in> set (configuration s). cam_allocate cam st < 0)"
proof -
  have "isl (case r of Inl e \<Rightarrow> Inl e | Inr s3 \<Rightarrow> Inr (f s3)) = isl r"
    for r :: "error + app" and f :: "app \<Rightarrow> app"
    by (cases r) simp_all
  then show ?thesis
    by (simp add: setupCapture_def Let_def setup_streams_fails_iff)
qed

text \<open>
  Claim C5 does not hold of the code: the value \<^verbatim>\<open>mmap\<close> returns is never
  compared with \<^verbatim>\<open>MAP_FAILED\<close>.  Whether \<^verbatim>\<open>setupCapture\<close> fails depends on
  the validation, the configuration and the allocation only
  (\<open>setupCapture_fails_iff\<close>).  For one stream with one single-plane buffer
  of 4096 bytes and an operating system that refuses the mapping, setup
  returns normally, with the span \<open>(MAP_FAILED, 4096)\<close> entered in the
  table of mapped buffers and the buffer on the stream's free list.
\<close>

theorem setupCapture_records_failed_mapping:
  "setupCapture cam_one_buffer mmap_fails app_configured =
     Inr (app_configured
            \<lparr>frame_buffers := (\<lambda>st. [])(1 := [11]),
             mapped_buffers := (\<lambda>b. [])(11 := [(MAP_FAILED, 4096)])\<rparr>)"
  by (simp add: setupCapture_def cam_one_buffer_def cam_ok_def app_configured_def app0_def
        mmap_fails_def)

section \<open>One request per buffer of the primary stream\<close>













end
